theory Spec2Isabelle
  imports Complex_Main "HOL-Library.Multiset" "HOL-Library.AList"
begin

section \<open>Data model\<close>

text \<open>
  The dashboard keeps its data in plain objects (\<^verbatim>\<open>services/api.ts\<close>). A \<^verbatim>\<open>Trade\<close> is a
  record; its optional members (\<^verbatim>\<open>exit?\<close>, \<^verbatim>\<open>session?\<close>, \<^verbatim>\<open>notes?\<close>, \<^verbatim>\<open>isExitRecord?\<close>)
  are options, \<open>None\<close> standing for \<^verbatim>\<open>undefined\<close>.

  A \<^verbatim>\<open>number\<close> held by a trade is a finite double, given by its real value. What the
  source computes from these numbers is a \<open>number\<close> of the next section: a double with
  the rounding of IEEE 754 binary64, or an infinity, or \<^verbatim>\<open>NaN\<close>.

  The members \<^verbatim>\<open>id\<close>, \<^verbatim>\<open>size\<close> and \<^verbatim>\<open>notes\<close> are named \<open>trade_id\<close>, \<open>trade_size\<close> and
  \<open>trade_notes\<close>.
\<close>

datatype direction = Long | Short

record trade =
  trade_id :: string
  date :: string
  symbol :: string
  direction :: direction
  entry :: real
  exit :: "real option"
  trade_size :: real
  pnl :: real
  session :: "string option"
  trade_notes :: "string option"
  isExitRecord :: "bool option"

section \<open>Double-precision arithmetic\<close>

text \<open>
  The arithmetic of the source is that of binary64: the exact result of an operation is
  rounded to the nearest double, ties to the one with an even significand. A double has
  a significand of 53 bits; its unit in the last place is \<open>2 powi e\<close> where \<open>e\<close> is 52
  below the binary exponent of the value and never below \<open>- 1074\<close> (the subnormal range).
  \<open>floor_log2 x\<close> is the binary exponent of a positive \<open>x\<close>.
\<close>

function floor_log2 :: "real \<Rightarrow> int" where
  "floor_log2 x =
     (if x \<le> 0 then 0
      else if x < 1 then floor_log2 (2 * x) - 1
      else if 2 \<le> x then floor_log2 (x / 2) + 1
      else 0)"
  by pat_completeness auto

termination
proof (relation "measure (\<lambda>x. nat \<lfloor>\<bar>log 2 x\<bar>\<rfloor> + (if x < 1 then 1 else 0))")
  show "wf (measure (\<lambda>x::real. nat \<lfloor>\<bar>log 2 x\<bar>\<rfloor> + (if x < 1 then 1 else 0)))"
    by simp
next
  fix x :: real
  assume pos: "\<not> x \<le> 0" and small: "x < 1"
  have l: "log 2 (2 * x) = 1 + log 2 x"
    using pos by (simp add: log_mult)
  have neg: "log 2 x < 0"
    using pos small by simp
  show "(2 * x, x) \<in> measure (\<lambda>x. nat \<lfloor>\<bar>log 2 x\<bar>\<rfloor> + (if x < 1 then 1 else 0))"
  proof (cases "2 * x < 1")
    case True
    then have "log 2 (2 * x) < 0"
      using pos by simp
    then have "\<bar>log 2 (2 * x)\<bar> = \<bar>log 2 x\<bar> - 1"
      using l neg by simp
    moreover have "1 \<le> \<bar>log 2 x\<bar>"
      using \<open>log 2 (2 * x) < 0\<close> l neg by simp
    ultimately have "nat \<lfloor>\<bar>log 2 (2 * x)\<bar>\<rfloor> < nat \<lfloor>\<bar>log 2 x\<bar>\<rfloor>"
      by linarith
    with True small show ?thesis by simp
  next
    case False
    then have "0 \<le> log 2 (2 * x)"
      using pos by simp
    moreover have "log 2 (2 * x) < 1"
      using l neg by simp
    ultimately have "\<lfloor>\<bar>log 2 (2 * x)\<bar>\<rfloor> = 0"
      by (simp add: floor_eq_iff)
    with False small show ?thesis by simp
  qed
next
  fix x :: real
  assume pos: "\<not> x \<le> 0" and "\<not> x < 1" and big: "2 \<le> x"
  have l: "log 2 (x / 2) = log 2 x - 1"
    using pos by (simp add: log_divide)
  have "1 \<le> log 2 x"
    using big by (simp add: le_log_iff)
  then have "nat \<lfloor>\<bar>log 2 (x / 2)\<bar>\<rfloor> < nat \<lfloor>\<bar>log 2 x\<bar>\<rfloor>"
    using l by linarith
  with big show "(x / 2, x) \<in> measure (\<lambda>x. nat \<lfloor>\<bar>log 2 x\<bar>\<rfloor> + (if x < 1 then 1 else 0))"
    by simp
qed

declare floor_log2.simps [simp del]

definition min_exponent :: int where
  "min_exponent = - 1074"

definition ulp_exponent :: "real \<Rightarrow> int" where
  "ulp_exponent x = max min_exponent (floor_log2 \<bar>x\<bar> - 52)"

definition round_half_even :: "real \<Rightarrow> int" where
  "round_half_even y =
     (let f = \<lfloor>y\<rfloor>
      in if y - of_int f < 1 / 2 then f
         else if 1 / 2 < y - of_int f then f + 1
         else if even f then f else f + 1)"

definition nearest :: "real \<Rightarrow> real" where
  "nearest x = of_int (round_half_even (x / 2 powi ulp_exponent x)) * 2 powi ulp_exponent x"

text \<open>
  A \<open>number\<close> is a finite double, an infinity or \<^verbatim>\<open>NaN\<close>. The two zeros are one value:
  the source never divides by a zero it has computed and compares numbers only with
  \<^verbatim>\<open><\<close>, \<^verbatim>\<open>>\<close>, \<^verbatim>\<open>Math.max\<close> and \<^verbatim>\<open>Math.min\<close>. A rounded result at or beyond \<open>2 ^ 1024\<close>
  in magnitude is an infinity.
\<close>

datatype number = NaN | NegInfinity | Num real | PosInfinity

definition overflow_threshold :: real where
  "overflow_threshold = 2 ^ 1024"

definition round64 :: "real \<Rightarrow> number" where
  "round64 x =
     (let r = nearest x
      in if overflow_threshold \<le> r then PosInfinity
         else if r \<le> - overflow_threshold then NegInfinity
         else Num r)"

fun fadd :: "number \<Rightarrow> number \<Rightarrow> number" where
  "fadd NaN b = NaN"
| "fadd a NaN = NaN"
| "fadd PosInfinity NegInfinity = NaN"
| "fadd NegInfinity PosInfinity = NaN"
| "fadd PosInfinity b = PosInfinity"
| "fadd a PosInfinity = PosInfinity"
| "fadd NegInfinity b = NegInfinity"
| "fadd a NegInfinity = NegInfinity"
| "fadd (Num x) (Num y) = round64 (x + y)"

fun fneg :: "number \<Rightarrow> number" where
  "fneg NaN = NaN"
| "fneg NegInfinity = PosInfinity"
| "fneg PosInfinity = NegInfinity"
| "fneg (Num x) = Num (- x)"

definition fsub :: "number \<Rightarrow> number \<Rightarrow> number" where
  "fsub a b = fadd a (fneg b)"

definition infinity_of_sign :: "bool \<Rightarrow> number" where
  "infinity_of_sign negative = (if negative then NegInfinity else PosInfinity)"

fun fmul :: "number \<Rightarrow> number \<Rightarrow> number" where
  "fmul NaN b = NaN"
| "fmul a NaN = NaN"
| "fmul (Num x) (Num y) = round64 (x * y)"
| "fmul (Num x) PosInfinity = (if x = 0 then NaN else infinity_of_sign (x < 0))"
| "fmul (Num x) NegInfinity = (if x = 0 then NaN else infinity_of_sign (0 < x))"
| "fmul PosInfinity (Num y) = (if y = 0 then NaN else infinity_of_sign (y < 0))"
| "fmul NegInfinity (Num y) = (if y = 0 then NaN else infinity_of_sign (0 < y))"
| "fmul PosInfinity PosInfinity = PosInfinity"
| "fmul NegInfinity NegInfinity = PosInfinity"
| "fmul PosInfinity NegInfinity = NegInfinity"
| "fmul NegInfinity PosInfinity = NegInfinity"

text \<open>
  Every divisor of the source is a length or a sum of absolute values, so a divisor that
  is zero is the positive zero.
\<close>

fun fdiv :: "number \<Rightarrow> number \<Rightarrow> number" where
  "fdiv NaN b = NaN"
| "fdiv a NaN = NaN"
| "fdiv (Num x) (Num y) =
     (if y = 0 then (if x = 0 then NaN else infinity_of_sign (x < 0)) else round64 (x / y))"
| "fdiv (Num x) PosInfinity = Num 0"
| "fdiv (Num x) NegInfinity = Num 0"
| "fdiv PosInfinity (Num y) = infinity_of_sign (y < 0)"
| "fdiv NegInfinity (Num y) = infinity_of_sign (0 \<le> y)"
| "fdiv PosInfinity PosInfinity = NaN"
| "fdiv PosInfinity NegInfinity = NaN"
| "fdiv NegInfinity PosInfinity = NaN"
| "fdiv NegInfinity NegInfinity = NaN"

text \<open>
  Comparison: \<^verbatim>\<open>NaN\<close> compares false with everything. \<^verbatim>\<open>Math.max\<close> and \<^verbatim>\<open>Math.min\<close> of two
  numbers are \<^verbatim>\<open>NaN\<close> as soon as one argument is. A number is truthy unless it is 0 or
  \<^verbatim>\<open>NaN\<close>.
\<close>

fun number_le :: "number \<Rightarrow> number \<Rightarrow> bool" where
  "number_le NaN b = False"
| "number_le a NaN = False"
| "number_le NegInfinity b = True"
| "number_le a PosInfinity = True"
| "number_le PosInfinity b = False"
| "number_le a NegInfinity = False"
| "number_le (Num x) (Num y) = (x \<le> y)"

definition max_number :: "number \<Rightarrow> number \<Rightarrow> number" where
  "max_number a b = (if a = NaN \<or> b = NaN then NaN else if number_le a b then b else a)"

definition min_number :: "number \<Rightarrow> number \<Rightarrow> number" where
  "min_number a b = (if a = NaN \<or> b = NaN then NaN else if number_le a b then a else b)"

definition truthy_number :: "number \<Rightarrow> bool" where
  "truthy_number a \<longleftrightarrow> a \<noteq> NaN \<and> a \<noteq> Num 0"

text \<open>
  Integers up to \<^verbatim>\<open>Number.MAX_SAFE_INTEGER\<close> in magnitude are doubles, and sums of them
  that stay in that range are exact. \<open>safe_amounts\<close> says that the pnl of the trades
  are integers whose absolute values add up to at most that bound.
\<close>

definition is_integer :: "real \<Rightarrow> bool" where
  "is_integer x \<longleftrightarrow> of_int \<lfloor>x\<rfloor> = x"

definition max_safe_integer :: real where
  "max_safe_integer = 9007199254740991"

definition safe_amounts :: "trade list \<Rightarrow> bool" where
  "safe_amounts ts \<longleftrightarrow>
     list_all (\<lambda>t. is_integer (pnl t)) ts \<and> (\<Sum>t\<leftarrow>ts. \<bar>pnl t\<bar>) \<le> max_safe_integer"


section \<open>Maximum drawdown\<close>

text \<open>
  \<^verbatim>\<open>computeDrawdown\<close> (\<^verbatim>\<open>pages/index.tsx\<close>) runs \<^verbatim>\<open>forEach\<close> over the series with three
  local variables \<^verbatim>\<open>peak\<close>, \<^verbatim>\<open>maxDd\<close> and \<^verbatim>\<open>equity\<close>, all starting at 0. The loop is the
  recursion \<open>drawdown_loop\<close> over the remaining elements, the variables being its
  arguments.
\<close>

fun drawdown_loop :: "number \<Rightarrow> number \<Rightarrow> number \<Rightarrow> trade list \<Rightarrow> number" where
  "drawdown_loop peak maxDd equity [] = maxDd"
| "drawdown_loop peak maxDd equity (p # ps) =
     (let equity' = fadd equity (Num (pnl p));
          peak' = max_number peak equity';
          maxDd' = min_number maxDd (fsub equity' peak')
      in drawdown_loop peak' maxDd' equity' ps)"

definition computeDrawdown :: "trade list \<Rightarrow> number" where
  "computeDrawdown series = drawdown_loop (Num 0) (Num 0) (Num 0) series"



section \<open>The platform's dates\<close>

text \<open>
  The source reads a trade's date through the platform: \<^verbatim>\<open>new Date(s).getFullYear()\<close>,
  \<^verbatim>\<open>new Date(s).toLocaleString("en-GB", { month: "short" })\<close> and
  \<^verbatim>\<open>new Date(s).getTime()\<close>. What these return depends on the engine, its time zone and
  its locale data, so they are parameters of the model. A year and a time are integers, or
  \<^verbatim>\<open>NaN\<close> (\<open>None\<close>) when the string is no date.
\<close>

record date_platform =
  getFullYear :: "string \<Rightarrow> int option"
  monthShort :: "string \<Rightarrow> string"
  getTime :: "string \<Rightarrow> int option"

text \<open>
  A template literal turns the year into its decimal text (\<^verbatim>\<open>NaN\<close> for no number), and
  \<^verbatim>\<open>.slice(-2)\<close> keeps the last two characters, or the whole text when it is shorter.
\<close>

definition digit_chars :: string where
  "digit_chars = ''0123456789''"

fun nat_digits :: "nat \<Rightarrow> string" where
  "nat_digits n =
     (if n < 10 then [digit_chars ! n] else nat_digits (n div 10) @ [digit_chars ! (n mod 10)])"

declare nat_digits.simps [simp del]

definition number_text :: "int option \<Rightarrow> string" where
  "number_text v =
     (case v of
        None \<Rightarrow> ''NaN''
      | Some n \<Rightarrow> if n < 0 then CHR ''-'' # nat_digits (nat (- n)) else nat_digits (nat n))"

definition slice_from_end :: "nat \<Rightarrow> string \<Rightarrow> string" where
  "slice_from_end k s = drop (length s - k) s"

definition monthFromDate :: "date_platform \<Rightarrow> string \<Rightarrow> string" where
  "monthFromDate D d =
     (let shortYear = slice_from_end 2 (number_text (getFullYear D d))
      in monthShort D d @ shortYear)"

section \<open>The dashboard's filter\<close>

text \<open>
  \<^verbatim>\<open>filtered\<close> in \<^verbatim>\<open>DashboardView\<close> chains two \<^verbatim>\<open>filter\<close> calls. \<^verbatim>\<open>Boolean(t.exit)\<close> is
  false for \<^verbatim>\<open>undefined\<close> and for the number 0; \<^verbatim>\<open>t.isExitRecord\<close> is falsy when it is
  \<^verbatim>\<open>undefined\<close> or \<^verbatim>\<open>false\<close>.
\<close>

definition Boolean_number :: "real option \<Rightarrow> bool" where
  "Boolean_number v = (case v of None \<Rightarrow> False | Some x \<Rightarrow> x \<noteq> 0)"

definition truthy_flag :: "bool option \<Rightarrow> bool" where
  "truthy_flag v = (case v of None \<Rightarrow> False | Some b \<Rightarrow> b)"

definition filtered :: "date_platform \<Rightarrow> trade list \<Rightarrow> string \<Rightarrow> bool \<Rightarrow> trade list" where
  "filtered D trades activeMonth exitsOnly =
     filter (\<lambda>t. if exitsOnly then Boolean_number (exit t) \<or> truthy_flag (isExitRecord t) else True)
       (filter (\<lambda>t. monthFromDate D (date t) = activeMonth) trades)"

section \<open>Sorting by date\<close>

text \<open>
  \<^verbatim>\<open>Array.prototype.sort\<close> with a comparator is stable, and a comparator result of \<^verbatim>\<open>NaN\<close>
  counts as 0. With a consistent comparator the outcome is the one stable ordering, which
  the insertion sort below computes. The comparator of the source is the difference of
  two times, \<^verbatim>\<open>NaN\<close> as soon as one of the dates is no date; the order the engine
  produces then is its own choice, and nothing is proved here about the order in that
  case.
\<close>

definition sort_compare :: "('a \<Rightarrow> 'a \<Rightarrow> int option) \<Rightarrow> 'a \<Rightarrow> 'a \<Rightarrow> int" where
  "sort_compare comparefn x y = (case comparefn x y of None \<Rightarrow> 0 | Some v \<Rightarrow> v)"

fun sort_insert :: "('a \<Rightarrow> 'a \<Rightarrow> int option) \<Rightarrow> 'a \<Rightarrow> 'a list \<Rightarrow> 'a list" where
  "sort_insert comparefn x [] = [x]"
| "sort_insert comparefn x (y # ys) =
     (if sort_compare comparefn x y \<le> 0 then x # y # ys else y # sort_insert comparefn x ys)"

definition array_sort :: "('a \<Rightarrow> 'a \<Rightarrow> int option) \<Rightarrow> 'a list \<Rightarrow> 'a list" where
  "array_sort comparefn xs = foldr (sort_insert comparefn) xs []"

definition time_difference :: "date_platform \<Rightarrow> string \<Rightarrow> string \<Rightarrow> int option" where
  "time_difference D a b =
     (case (getTime D a, getTime D b) of (Some x, Some y) \<Rightarrow> Some (x - y) | _ \<Rightarrow> None)"

section \<open>Dashboard statistics, equity curve and daily P&L\<close>

text \<open>
  \<^verbatim>\<open>stats\<close>, \<^verbatim>\<open>equityCurve\<close> and \<^verbatim>\<open>dailyPnL\<close> of \<^verbatim>\<open>DashboardView\<close> are computed from
  the filtered trades. \<^verbatim>\<open>reduce\<close> is a left fold; \<^verbatim>\<open>xs.length ? a : b\<close> tests the
  length against 0. \<open>add_pnl\<close> is the callback \<^verbatim>\<open>(acc, t) => acc + t.pnl\<close>.
\<close>

definition add_pnl :: "number \<Rightarrow> trade \<Rightarrow> number" where
  "add_pnl acc t = fadd acc (Num (pnl t))"

record summary =
  net :: number
  winRate :: number
  avgWin :: number
  avgLoss :: number
  totalTrades :: nat
  drawdown :: number

definition stats :: "trade list \<Rightarrow> summary" where
  "stats ts =
     (let wins = filter (\<lambda>t. pnl t > 0) ts;
          losses = filter (\<lambda>t. pnl t < 0) ts
      in \<lparr> net = foldl add_pnl (Num 0) ts,
           winRate = (if length ts \<noteq> 0
                      then fmul (fdiv (Num (real (length wins))) (Num (real (length ts))))
                             (Num 100)
                      else Num 0),
           avgWin = (if length wins \<noteq> 0
                     then fdiv (foldl add_pnl (Num 0) wins) (Num (real (length wins)))
                     else Num 0),
           avgLoss = (if length losses \<noteq> 0
                      then fdiv (foldl add_pnl (Num 0) losses) (Num (real (length losses)))
                      else Num 0),
           totalTrades = length ts,
           drawdown = computeDrawdown ts \<rparr>)"

text \<open>
  A point of the equity curve is \<^verbatim>\<open>{ date, equity, pnl }\<close>; its members \<^verbatim>\<open>date\<close> and
  \<^verbatim>\<open>pnl\<close> are named \<open>point_date\<close> and \<open>point_pnl\<close>. The callback of \<^verbatim>\<open>map\<close> adds to
  the variable \<^verbatim>\<open>running\<close>, which each evaluation of \<^verbatim>\<open>equityCurve\<close> declares anew
  with the value 0: \<open>curve_points\<close> threads it through the list.
\<close>

record curve_point =
  point_date :: string
  equity :: number
  point_pnl :: real



text \<open>
  \<^verbatim>\<open>dailyPnL\<close> fills a \<^verbatim>\<open>Map\<close> from date strings to numbers. A \<^verbatim>\<open>Map\<close> keeps its keys in
  the order of their first insertion and \<^verbatim>\<open>set\<close> on a key it has replaces the value in
  place: an association list under \<open>AList.update\<close>. \<^verbatim>\<open>map.get(k) ?? 0\<close> is
  \<open>get_or_zero\<close>. An entry of the result is \<^verbatim>\<open>{ date, pnl }\<close>, with members named
  \<open>day_date\<close> and \<open>day_pnl\<close>.
\<close>

definition get_or_zero :: "(string \<times> number) list \<Rightarrow> string \<Rightarrow> number" where
  "get_or_zero m k = (case map_of m k of None \<Rightarrow> Num 0 | Some v \<Rightarrow> v)"

fun daily_forEach :: "trade list \<Rightarrow> (string \<times> number) list \<Rightarrow> (string \<times> number) list" where
  "daily_forEach [] m = m"
| "daily_forEach (t # ts) m =
     daily_forEach ts (AList.update (date t) (fadd (get_or_zero m (date t)) (Num (pnl t))) m)"

record day_entry =
  day_date :: string
  day_pnl :: number

definition dailyPnL :: "date_platform \<Rightarrow> trade list \<Rightarrow> day_entry list" where
  "dailyPnL D ts =
     map (\<lambda>(d, v). \<lparr> day_date = d, day_pnl = v \<rparr>)
       (array_sort (\<lambda>a b. time_difference D (fst a) (fst b)) (daily_forEach ts []))"

section \<open>Reports\<close>

text \<open>
  \<^verbatim>\<open>ReportsView\<close> computes its metrics over all trades. \<^verbatim>\<open>losses ? wins / losses : wins\<close>
  divides when \<^verbatim>\<open>losses\<close> is truthy. \<^verbatim>\<open>Math.max(...xs)\<close> of no argument is
  \<^verbatim>\<open>-Infinity\<close> and \<^verbatim>\<open>Math.min(...xs)\<close> of no argument is \<^verbatim>\<open>Infinity\<close>; the greatest and
  the least of finite numbers are found without rounding.
\<close>

definition profitFactor :: "trade list \<Rightarrow> number" where
  "profitFactor trades =
     (let wins = foldl (\<lambda>a b. fadd a (Num (pnl b))) (Num 0) (filter (\<lambda>t. pnl t > 0) trades);
          losses = foldl (\<lambda>a b. fadd a (Num \<bar>pnl b\<bar>)) (Num 0) (filter (\<lambda>t. pnl t < 0) trades)
      in if truthy_number losses then fdiv wins losses else wins)"

definition expectancy :: "trade list \<Rightarrow> number" where
  "expectancy trades =
     fdiv (foldl add_pnl (Num 0) trades)
       (Num (if length trades \<noteq> 0 then real (length trades) else 1))"

definition Math_max :: "real list \<Rightarrow> number" where
  "Math_max args = (case args of [] \<Rightarrow> NegInfinity | x # xs \<Rightarrow> Num (foldl max x xs))"

definition Math_min :: "real list \<Rightarrow> number" where
  "Math_min args = (case args of [] \<Rightarrow> PosInfinity | x # xs \<Rightarrow> Num (foldl min x xs))"

definition best :: "trade list \<Rightarrow> number" where
  "best trades = Math_max (map pnl trades)"

definition worst :: "trade list \<Rightarrow> number" where
  "worst trades = Math_min (map pnl trades)"

section \<open>Assigning a session\<close>

text \<open>
  \<^verbatim>\<open>assignSession\<close> hands \<^verbatim>\<open>setTrades\<close> an update of the previous list:
  \<^verbatim>\<open>prev.map((t) => (t.id === tradeId ? { ...t, session } : t))\<close>. The spread copies every
  member and \<^verbatim>\<open>session\<close> is then overwritten.
\<close>

definition assignSession :: "string \<Rightarrow> string \<Rightarrow> trade list \<Rightarrow> trade list" where
  "assignSession tradeId s prev =
     map (\<lambda>t. if trade_id t = tradeId then t\<lparr>session := Some s\<rparr> else t) prev"

section \<open>The health probe of the client\<close>

text \<open>
  \<^verbatim>\<open>tryApi\<close> and \<^verbatim>\<open>health\<close> (\<^verbatim>\<open>services/api.ts\<close>) are asynchronous; what the network does
  is the input of the model. \<^verbatim>\<open>fetch\<close> either rejects or is fulfilled with a response,
  which has a flag \<^verbatim>\<open>ok\<close> (named \<open>res_ok\<close>) and a body that \<^verbatim>\<open>res.json()\<close> either parses
  to a JSON value or rejects (\<open>None\<close>). A promise that settles is a sum: \<open>Inl\<close> a
  rejection, \<open>Inr\<close> the value it resolves with.
\<close>

datatype json =
    JNull
  | JBool bool
  | JNumber real
  | JString string
  | JArray "json list"
  | JObject "(string \<times> json) list"

record response =
  res_ok :: bool
  res_json :: "json option"

datatype fetch_outcome = Rejected | Fulfilled response

datatype thrown = Thrown

text \<open>
  The \<^verbatim>\<open>try\<close> block of \<^verbatim>\<open>tryApi\<close> throws when \<^verbatim>\<open>fetch\<close> or \<^verbatim>\<open>res.json()\<close> rejects;
  the \<^verbatim>\<open>catch\<close> turns every throw into \<^verbatim>\<open>null\<close>.
\<close>

definition tryApi_try :: "fetch_outcome \<Rightarrow> thrown + json" where
  "tryApi_try r =
     (case r of
        Rejected \<Rightarrow> Inl Thrown
      | Fulfilled res \<Rightarrow>
          if \<not> res_ok res then Inr JNull
          else (case res_json res of None \<Rightarrow> Inl Thrown | Some v \<Rightarrow> Inr v))"

definition tryApi :: "fetch_outcome \<Rightarrow> thrown + json" where
  "tryApi r = (case tryApi_try r of Inl err \<Rightarrow> Inr JNull | Inr v \<Rightarrow> Inr v)"

text \<open>
  \<^verbatim>\<open>apiHealth?.ok\<close> is \<^verbatim>\<open>undefined\<close> (\<open>None\<close>) for \<^verbatim>\<open>null\<close> and for a value without a member
  \<^verbatim>\<open>ok\<close>; of a repeated key, \<^verbatim>\<open>JSON.parse\<close> keeps the last. The \<^verbatim>\<open>if\<close> tests the member
  for truthiness.
\<close>

fun get_member :: "json \<Rightarrow> string \<Rightarrow> json option" where
  "get_member (JObject kvs) k = map_of (rev kvs) k"
| "get_member _ k = None"

fun truthy :: "json option \<Rightarrow> bool" where
  "truthy None = False"
| "truthy (Some JNull) = False"
| "truthy (Some (JBool b)) = b"
| "truthy (Some (JNumber x)) = (x \<noteq> 0)"
| "truthy (Some (JString s)) = (s \<noteq> [])"
| "truthy (Some (JArray _)) = True"
| "truthy (Some (JObject _)) = True"

datatype health_source = Api | Local

record health_result =
  ok :: bool
  source :: health_source

definition health :: "fetch_outcome \<Rightarrow> thrown + health_result" where
  "health r =
     (case tryApi r of
        Inl e \<Rightarrow> Inl e
      | Inr apiHealth \<Rightarrow>
          if truthy (get_member apiHealth ''ok'') then Inr \<lparr> ok = True, source = Api \<rparr>
          else Inr \<lparr> ok = True, source = Local \<rparr>)"

section \<open>A sample platform and the seed data\<close>

text \<open>
  For evaluation on concrete inputs: what an engine in the time zone UTC answers on a
  calendar date written \<^verbatim>\<open>YYYY-MM-DD\<close>, as the form's date input and the seed data write
  it, with the short month names of the locale \<^verbatim>\<open>en-GB\<close>. The sample describes the
  platform on these strings only; on every other string it answers as for an invalid
  date.
\<close>

definition digit_value :: "char \<Rightarrow> nat option" where
  "digit_value c = map_of (zip digit_chars [0, 1, 2, 3, 4, 5, 6, 7, 8, 9]) c"

definition digits_value :: "string \<Rightarrow> nat option" where
  "digits_value s =
     foldl (\<lambda>acc c. case (acc, digit_value c) of (Some a, Some d) \<Rightarrow> Some (10 * a + d) | _ \<Rightarrow> None)
       (Some 0) s"

definition days_in_month :: "nat \<Rightarrow> nat \<Rightarrow> nat" where
  "days_in_month y m =
     (if m = 2 then (if y mod 4 = 0 \<and> (y mod 100 \<noteq> 0 \<or> y mod 400 = 0) then 29 else 28)
      else if m = 4 \<or> m = 6 \<or> m = 9 \<or> m = 11 then 30
      else 31)"

definition iso_date :: "string \<Rightarrow> (int \<times> int \<times> int) option" where
  "iso_date s =
     (if length s = 10 \<and> s ! 4 = CHR ''-'' \<and> s ! 7 = CHR ''-''
      then (case (digits_value (take 4 s), digits_value (take 2 (drop 5 s)),
                  digits_value (take 2 (drop 8 s))) of
              (Some y, Some m, Some d) \<Rightarrow>
                if 1 \<le> m \<and> m \<le> 12 \<and> 1 \<le> d \<and> d \<le> days_in_month y m
                then Some (int y, int m, int d) else None
            | _ \<Rightarrow> None)
      else None)"

definition days_from_civil :: "int \<Rightarrow> int \<Rightarrow> int \<Rightarrow> int" where
  "days_from_civil y m d =
     (let y' = (if m \<le> 2 then y - 1 else y);
          era = y' div 400;
          yoe = y' - era * 400;
          doy = (153 * (if m > 2 then m - 3 else m + 9) + 2) div 5 + d - 1;
          doe = yoe * 365 + yoe div 4 - yoe div 100 + doy
      in era * 146097 + doe - 719468)"

definition month_names :: "string list" where
  "month_names = [''Jan'', ''Feb'', ''Mar'', ''Apr'', ''May'', ''Jun'',
                  ''Jul'', ''Aug'', ''Sept'', ''Oct'', ''Nov'', ''Dec'']"

definition utc_platform :: date_platform where
  "utc_platform =
     \<lparr> getFullYear = (\<lambda>s. case iso_date s of None \<Rightarrow> None | Some (y, m, d) \<Rightarrow> Some y),
       monthShort = (\<lambda>s. case iso_date s of None \<Rightarrow> ''Invalid Date''
                          | Some (y, m, d) \<Rightarrow> month_names ! nat (m - 1)),
       getTime = (\<lambda>s. case iso_date s of None \<Rightarrow> None
                       | Some (y, m, d) \<Rightarrow> Some (days_from_civil y m d * 86400000)) \<rparr>"

text \<open>The trades of \<^verbatim>\<open>seedData\<close> (\<^verbatim>\<open>services/api.ts\<close>), in their order.\<close>

definition seed_trade ::
  "string \<Rightarrow> string \<Rightarrow> string \<Rightarrow> direction \<Rightarrow> real \<Rightarrow> real \<Rightarrow> real \<Rightarrow> real \<Rightarrow> string \<Rightarrow> string \<Rightarrow> trade" where
  "seed_trade i d sy dir en ex sz p se n =
     \<lparr> trade_id = i, date = d, symbol = sy, direction = dir, entry = en, exit = Some ex,
       trade_size = sz, pnl = p, session = Some se, trade_notes = Some n,
       isExitRecord = Some True \<rparr>"

definition seed_trades :: "trade list" where
  "seed_trades =
     [seed_trade ''T-1001'' ''2025-09-04'' ''NAS100'' Long 15432 15580 2 296 ''London''
        ''Breakout after CPI'',
      seed_trade ''T-1002'' ''2025-10-11'' ''GBP/USD'' Short 1.245 1.238 3 420 ''New York''
        ''NY open momentum'',
      seed_trade ''T-1003'' ''2025-11-02'' ''Gold'' Long 1988 1980 1 (- 160) ''Tokyo''
        ''Reversal failed'',
      seed_trade ''T-1004'' ''2025-12-05'' ''NAS100'' Short 16012 15870 2 284 ''London''
        ''Intraday fade'',
      seed_trade ''T-1005'' ''2025-12-12'' ''EUR/JPY'' Long 163.1 162.4 4 (- 280) ''Tokyo''
        ''News whipsaw'',
      seed_trade ''T-1006'' ''2025-12-18'' ''GBP/USD'' Long 1.257 1.262 5 250 ''New York''
        ''Trend continuation'',
      seed_trade ''T-1007'' ''2025-12-22'' ''Gold'' Short 2012 2002 2 200 ''London''
        ''Mean reversion'']"


text \<open>
  Trades with amounts that are not integers, and with amounts at the top of the range of
  the doubles. The doubles written \<^verbatim>\<open>0.1\<close>, \<^verbatim>\<open>0.2\<close>, \<^verbatim>\<open>0.3\<close> and \<^verbatim>\<open>1.1\<close> in the source
  language are the values of \<open>tenth\<close>, \<open>fifth\<close>, \<open>three_tenths\<close> and \<open>eleven_tenths\<close>;
  \<open>huge\<close> is the double \<^verbatim>\<open>2 ** 1023\<close>, about \<^verbatim>\<open>8.99e307\<close>.
\<close>

definition tenth :: real where
  "tenth = 3602879701896397 / 36028797018963968"

definition fifth :: real where
  "fifth = 3602879701896397 / 18014398509481984"

definition three_tenths :: real where
  "three_tenths = 5404319552844595 / 18014398509481984"


definition amount_trade :: "string \<Rightarrow> string \<Rightarrow> real \<Rightarrow> trade" where
  "amount_trade i d p =
     \<lparr> trade_id = i, date = d, symbol = ''NAS100'', direction = Long, entry = 1,
       exit = Some 2, trade_size = 1, pnl = p, session = None, trade_notes = None,
       isExitRecord = Some True \<rparr>"

definition newest_first :: "trade list" where
  "newest_first =
     [amount_trade ''T-3'' ''2025-12-03'' three_tenths,
      amount_trade ''T-2'' ''2025-12-02'' fifth,
      amount_trade ''T-1'' ''2025-12-01'' tenth]"


definition huge :: real where
  "huge = 2 ^ 1023"

definition huge_wins :: "trade list" where
  "huge_wins =
     [amount_trade ''T-1'' ''2025-12-01'' huge,
      amount_trade ''T-2'' ''2025-12-02'' huge]"

text \<open>
  For the statement about \<^verbatim>\<open>health\<close>: the body of a fetch that succeeded (fulfilled, with
  a success status, and parsed), and the declared type of that body, \<^verbatim>\<open>{ ok: boolean }\<close>,
  as far as the member \<^verbatim>\<open>ok\<close> goes.
\<close>

definition backend_body :: "fetch_outcome \<Rightarrow> json option" where
  "backend_body r =
     (case r of Rejected \<Rightarrow> None | Fulfilled res \<Rightarrow> if res_ok res then res_json res else None)"

definition ok_is_boolean :: "json \<Rightarrow> bool" where
  "ok_is_boolean v =
     (case get_member v ''ok'' of None \<Rightarrow> True | Some (JBool b) \<Rightarrow> True | Some _ \<Rightarrow> False)"

text \<open>What the handler of \<^verbatim>\<open>api/health/index.ts\<close> answers, at some time.\<close>

definition backend_reply :: fetch_outcome where
  "backend_reply =
     Fulfilled \<lparr> res_ok = True,
                 res_json = Some (JObject [(''ok'', JBool True),
                   (''data'', JObject [(''status'', JString ''ok''),
                                       (''time'', JString ''2025-12-01T00:00:00.000Z'')])]) \<rparr>"

text \<open>
  A trade as the form of \<^verbatim>\<open>TradesView\<close> creates it when 0 is typed as the exit and the
  exit flag is switched off.
\<close>

definition zero_exit_trade :: trade where
  "zero_exit_trade =
     \<lparr> trade_id = ''T-1765497600000'', date = ''2025-12-19'', symbol = ''NAS100'',
       direction = Long, entry = 12, exit = Some 0, trade_size = 1, pnl = - 12,
       session = Some ''New York'', trade_notes = Some '''', isExitRecord = Some False \<rparr>"

section \<open>Notions used in the statements and proofs\<close>


definition gross_wins :: "trade list \<Rightarrow> real" where
  "gross_wins trades = (\<Sum>t\<leftarrow>filter (\<lambda>t. pnl t > 0) trades. pnl t)"

definition gross_losses :: "trade list \<Rightarrow> real" where
  "gross_losses trades = (\<Sum>t\<leftarrow>filter (\<lambda>t. pnl t < 0) trades. \<bar>pnl t\<bar>)"


text \<open>A sum of numbers that are not negative is a number that is not negative, or infinite.\<close>

definition nonnegative :: "number \<Rightarrow> bool" where
  "nonnegative a \<longleftrightarrow> number_le (Num 0) a"

section \<open>Properties of the rounding\<close>

lemma floor_log2_bracket:
  "0 < x \<Longrightarrow> 2 powi floor_log2 x \<le> x \<and> x < 2 powi (floor_log2 x + 1)"
proof (induction x rule: floor_log2.induct)
  case (1 x)
  show ?case
  proof (cases "x < 1")
    case True
    with "1.prems" have IH: "2 powi floor_log2 (2 * x) \<le> 2 * x \<and> 2 * x < 2 powi (floor_log2 (2 * x) + 1)"
      using "1.IH"(1) by simp
    have eq: "floor_log2 x = floor_log2 (2 * x) - 1"
      using True "1.prems" by (subst floor_log2.simps) simp
    have "(2::real) powi (floor_log2 (2 * x) + 1) = 2 powi floor_log2 (2 * x) * 2"
      by (simp add: power_int_add)
    moreover have "(2::real) powi floor_log2 (2 * x) = 2 powi (floor_log2 (2 * x) - 1) * 2"
      using power_int_add [of "2::real" "floor_log2 (2 * x) - 1" 1] by simp
    ultimately show ?thesis
      using IH unfolding eq by simp
  next
    case False
    show ?thesis
    proof (cases "2 \<le> x")
      case True
      with False "1.prems" have IH: "2 powi floor_log2 (x / 2) \<le> x / 2 \<and> x / 2 < 2 powi (floor_log2 (x / 2) + 1)"
        using "1.IH"(2) by simp
      have eq: "floor_log2 x = floor_log2 (x / 2) + 1"
        using True False "1.prems" by (subst floor_log2.simps) simp
      have "(2::real) powi (floor_log2 (x / 2) + 1 + 1) = 2 powi (floor_log2 (x / 2) + 1) * 2"
        by (simp add: power_int_add)
      moreover have "(2::real) powi (floor_log2 (x / 2) + 1) = 2 powi floor_log2 (x / 2) * 2"
        by (simp add: power_int_add)
      ultimately show ?thesis
        using IH unfolding eq by simp
    next
      case F2: False
      with False "1.prems" have "floor_log2 x = 0"
        by (subst floor_log2.simps) simp
      with False F2 show ?thesis by simp
    qed
  qed
qed

lemma floor_log2_unique:
  assumes "0 < x" and "2 powi k \<le> x" and "x < 2 powi (k + 1)"
  shows "floor_log2 x = k"
proof -
  let ?f = "floor_log2 x"
  have b: "2 powi ?f \<le> x" "x < 2 powi (?f + 1)"
    using floor_log2_bracket [OF assms(1)] by simp_all
  have "(2::real) powi k < 2 powi (?f + 1)"
    using assms(2) b(2) by simp
  then have "k < ?f + 1"
    using power_int_increasing [of "?f + 1" k "2::real"] by (cases "k < ?f + 1") auto
  moreover have "(2::real) powi ?f < 2 powi (k + 1)"
    using assms(3) b(1) by simp
  then have "?f < k + 1"
    using power_int_increasing [of "k + 1" ?f "2::real"] by (cases "?f < k + 1") auto
  ultimately show ?thesis by simp
qed

lemma round_half_even_of_int [simp]: "round_half_even (of_int n) = n"
  by (simp add: round_half_even_def)

lemma round_half_even_close: "\<bar>of_int (round_half_even y) - y\<bar> \<le> 1 / 2"
  unfolding round_half_even_def Let_def by (auto simp: abs_le_iff)

lemma round_half_even_nonneg: "0 \<le> y \<Longrightarrow> 0 \<le> round_half_even y"
  unfolding round_half_even_def Let_def by auto



lemma nearest_zero [simp]: "nearest 0 = 0"
  using round_half_even_of_int [of 0] by (simp add: nearest_def)

lemma nearest_nonneg: "0 \<le> x \<Longrightarrow> 0 \<le> nearest x"
  unfolding nearest_def by (intro mult_nonneg_nonneg) (simp_all add: round_half_even_nonneg)


lemma nearest_exact:
  assumes "x = of_int n * 2 powi ulp_exponent x"
  shows "nearest x = x"
proof -
  have "x / 2 powi ulp_exponent x = of_int n"
    using assms by (metis nonzero_eq_divide_eq power_int_eq_0_iff zero_neq_numeral)
  then show ?thesis
    using assms by (simp add: nearest_def)
qed








lemma floor_log2_less:
  assumes "0 < x" and "x < 2 powi k"
  shows "floor_log2 x < k"
proof (rule ccontr)
  assume "\<not> floor_log2 x < k"
  then have "(2::real) powi k \<le> 2 powi floor_log2 x"
    by (intro power_int_increasing) simp_all
  also have "\<dots> \<le> x"
    using floor_log2_bracket [OF assms(1)] by simp
  finally show False
    using assms(2) by simp
qed

lemma ulp_exponent_safe:
  assumes "\<bar>x\<bar> \<le> max_safe_integer"
  shows "ulp_exponent x \<le> 0"
proof (cases "x = 0")
  case True
  then show ?thesis
    by (simp add: ulp_exponent_def min_exponent_def floor_log2.simps)
next
  case False
  then have "0 < \<bar>x\<bar>" by simp
  moreover have "\<bar>x\<bar> < 2 powi 53"
    using assms by (simp add: max_safe_integer_def)
  ultimately have "floor_log2 \<bar>x\<bar> < 53"
    by (rule floor_log2_less)
  then show ?thesis
    by (simp add: ulp_exponent_def min_exponent_def)
qed

lemma nearest_safe_integer:
  assumes "is_integer x" and "\<bar>x\<bar> \<le> max_safe_integer"
  shows "nearest x = x"
proof -
  let ?e = "ulp_exponent x"
  have e: "?e \<le> 0"
    using assms(2) by (rule ulp_exponent_safe)
  then have "(2::real) powi ?e * 2 ^ nat (- ?e) = 1"
    using power_int_add [of "2::real" ?e "- ?e"] by (simp add: power_int_def)
  then have "x = x * 2 ^ nat (- ?e) * 2 powi ?e"
    by (simp add: mult.assoc mult.commute)
  moreover have "x = of_int \<lfloor>x\<rfloor>"
    using assms(1) unfolding is_integer_def by (rule sym)
  ultimately have "x = of_int (\<lfloor>x\<rfloor> * 2 ^ nat (- ?e)) * 2 powi ?e"
    by (metis of_int_mult of_int_numeral of_int_power)
  then show ?thesis
    by (rule nearest_exact)
qed

lemma round64_safe_integer:
  assumes "is_integer x" and "\<bar>x\<bar> \<le> max_safe_integer"
  shows "round64 x = Num x"
proof -
  have "max_safe_integer < overflow_threshold"
  proof -
    have "max_safe_integer < 2 ^ 53"
      by (simp add: max_safe_integer_def)
    also have "(2::real) ^ 53 \<le> 2 ^ 1024"
      by (rule power_increasing) simp_all
    finally show ?thesis
      by (simp only: overflow_threshold_def)
  qed
  with assms(2) have "\<not> overflow_threshold \<le> x" and "\<not> x \<le> - overflow_threshold"
    by linarith+
  then show ?thesis
    using nearest_safe_integer [OF assms] by (simp add: round64_def)
qed

lemma nearest_at:
  assumes "2 powi k \<le> \<bar>x\<bar>" and "\<bar>x\<bar> < 2 powi (k + 1)" and "e = max min_exponent (k - 52)"
  shows "nearest x = of_int (round_half_even (x / 2 powi e)) * 2 powi e"
proof -
  have "0 < \<bar>x\<bar>"
    using assms(1) by (smt (verit) zero_less_power_int)
  then have "floor_log2 \<bar>x\<bar> = k"
    using assms(1,2) by (rule floor_log2_unique)
  then show ?thesis
    using assms(3) by (simp add: nearest_def ulp_exponent_def)
qed

lemma nearest_close: "\<bar>nearest x - x\<bar> \<le> 2 powi ulp_exponent x / 2"
proof -
  let ?u = "(2::real) powi ulp_exponent x"
  have u: "0 < ?u" by simp
  have "nearest x - x = (of_int (round_half_even (x / ?u)) - x / ?u) * ?u"
    using u by (simp add: nearest_def algebra_simps)
  then have "\<bar>nearest x - x\<bar> = \<bar>of_int (round_half_even (x / ?u)) - x / ?u\<bar> * ?u"
    using u by (simp add: abs_mult)
  also have "\<dots> \<le> 1 / 2 * ?u"
    using round_half_even_close [of "x / ?u"] u by (intro mult_right_mono) simp_all
  finally show ?thesis by simp
qed

lemma round64_small:
  assumes "\<bar>x\<bar> \<le> max_safe_integer"
  shows "round64 x = Num (nearest x)"
proof -
  have "ulp_exponent x \<le> 0"
    using assms by (rule ulp_exponent_safe)
  then have "(2::real) powi ulp_exponent x \<le> 2 powi 0"
    by (intro power_int_increasing) simp_all
  then have "\<bar>nearest x - x\<bar> \<le> 1 / 2"
    using nearest_close [of x] by simp
  then have "\<bar>nearest x\<bar> \<le> max_safe_integer + 1 / 2"
    using assms by linarith
  moreover have "max_safe_integer + 1 / 2 < overflow_threshold"
  proof -
    have "max_safe_integer + 1 / 2 < 2 ^ 53"
      by (simp add: max_safe_integer_def)
    also have "(2::real) ^ 53 \<le> 2 ^ 1024"
      by (rule power_increasing) simp_all
    finally show ?thesis
      by (simp only: overflow_threshold_def)
  qed
  ultimately have "\<not> overflow_threshold \<le> nearest x" and "\<not> nearest x \<le> - overflow_threshold"
    by linarith+
  then show ?thesis
    by (simp add: round64_def)
qed

lemma is_integer_minus: "is_integer x \<Longrightarrow> is_integer (- x)"
  unfolding is_integer_def by (metis of_int_minus floor_of_int)

lemma is_integer_pos_ge_one:
  assumes "is_integer x" and "0 < x"
  shows "1 \<le> x"
proof -
  have "x = of_int \<lfloor>x\<rfloor>"
    using assms(1) unfolding is_integer_def by (rule sym)
  moreover from this assms(2) have "0 < \<lfloor>x\<rfloor>"
    by linarith
  ultimately show ?thesis
    by linarith
qed

lemma overflow_threshold_pos: "0 < overflow_threshold"
  by (simp only: overflow_threshold_def zero_less_power zero_less_numeral)

lemma round64_zero [simp]: "round64 0 = Num 0"
  using overflow_threshold_pos by (simp add: round64_def)













lemma is_integer_add: "is_integer x \<Longrightarrow> is_integer y \<Longrightarrow> is_integer (x + y)"
  unfolding is_integer_def by (metis of_int_add floor_of_int)

lemma is_integer_abs: "is_integer x \<Longrightarrow> is_integer \<bar>x\<bar>"
  unfolding is_integer_def by (metis of_int_abs floor_of_int)

lemma is_integer_sum_list: "list_all is_integer xs \<Longrightarrow> is_integer (sum_list xs)"
proof (induction xs)
  case Nil
  show ?case by (simp add: is_integer_def)
next
  case (Cons x xs)
  then show ?case by (simp add: is_integer_add)
qed


section \<open>Evaluating the arithmetic on concrete numbers\<close>

text \<open>
  \<open>round64_at\<close> evaluates a rounding once the binary exponent of the argument is given.
  The sums below are those the sample trades need; in decimal notation the results are
  \<^verbatim>\<open>0.5\<close>, \<^verbatim>\<open>0.6\<close>, \<^verbatim>\<open>0.30000000000000004\<close>, \<^verbatim>\<open>0.6000000000000001\<close>,
  \<^verbatim>\<open>1.2000000000000002\<close>, \<^verbatim>\<open>1.3000000000000003\<close>, \<^verbatim>\<open>0.2\<close> and \<^verbatim>\<open>1.3\<close>.
\<close>

lemma round64_at:
  assumes "2 powi k \<le> \<bar>x\<bar>" and "\<bar>x\<bar> < 2 powi (k + 1)" and "e = max min_exponent (k - 52)"
    and "r = of_int (round_half_even (x / 2 powi e)) * 2 powi e"
    and "\<bar>r\<bar> < overflow_threshold"
  shows "round64 x = Num r"
proof -
  have "nearest x = r"
    using nearest_at [OF assms(1-3)] assms(4) by simp
  moreover have "\<not> overflow_threshold \<le> r" and "\<not> r \<le> - overflow_threshold"
    using assms(5) by linarith+
  ultimately show ?thesis
    by (simp add: round64_def)
qed

lemma is_integer_of_int [simp]: "is_integer (of_int n)"
  by (simp add: is_integer_def)

lemma is_integer_numeral [simp]: "is_integer (numeral k)" "is_integer (- numeral k)"
  "is_integer 0" "is_integer 1"
  using is_integer_of_int [of "numeral k"] is_integer_of_int [of "- numeral k"]
    is_integer_of_int [of 0] is_integer_of_int [of 1]
  by simp_all

lemmas round64_eval = min_exponent_def round_half_even_def power_int_minus overflow_threshold_def

lemma fadd_zero_tenth: "fadd (Num 0) (Num tenth) = Num tenth"
  unfolding tenth_def fadd.simps add_0
  by (rule round64_at [where k = "- 4" and e = "- 56"])
    (simp_all add: round64_eval)

lemma fadd_zero_three_tenths: "fadd (Num 0) (Num three_tenths) = Num three_tenths"
  unfolding three_tenths_def fadd.simps add_0
  by (rule round64_at [where k = "- 2" and e = "- 54"])
    (simp_all add: round64_eval)

lemma fadd_three_tenths_fifth: "fadd (Num three_tenths) (Num fifth) = Num (1 / 2)"
  unfolding three_tenths_def fifth_def fadd.simps
  by (rule round64_at [where k = "- 1" and e = "- 53"])
    (simp_all add: round64_eval)

lemma fadd_half_tenth:
  "fadd (Num (1 / 2)) (Num tenth) = Num (5404319552844595 / 9007199254740992)"
  unfolding tenth_def fadd.simps
  by (rule round64_at [where k = "- 1" and e = "- 53"])
    (simp_all add: round64_eval)

lemma fadd_tenth_fifth:
  "fadd (Num tenth) (Num fifth) = Num (1351079888211149 / 4503599627370496)"
  unfolding tenth_def fifth_def fadd.simps
  by (rule round64_at [where k = "- 2" and e = "- 54"])
    (simp_all add: round64_eval)

lemma fadd_sum_three_tenths:
  "fadd (Num (1351079888211149 / 4503599627370496)) (Num three_tenths)
     = Num (1351079888211149 / 2251799813685248)"
  unfolding three_tenths_def fadd.simps
  by (rule round64_at [where k = "- 1" and e = "- 53"])
    (simp_all add: round64_eval)






lemma fadd_zero_huge: "fadd (Num 0) (Num huge) = Num huge"
  unfolding huge_def fadd.simps add_0
  by (rule round64_at [where k = 1023 and e = 971]) (simp_all add: round64_eval)

lemma fadd_huge_huge: "fadd (Num huge) (Num huge) = PosInfinity"
proof -
  have "nearest (huge + huge) = 2 ^ 1024"
    unfolding huge_def
    by (subst nearest_at [where k = 1024 and e = 972]) (simp_all add: round64_eval)
  then show ?thesis
    by (simp add: round64_def overflow_threshold_def)
qed
lemmas safe_eval = round64_safe_integer max_safe_integer_def

lemma huge_pos: "0 < huge"
  by (simp add: huge_def)

section \<open>Properties of the maximum drawdown\<close>










section \<open>Exact sums of safe integers and the net\<close>

lemma foldl_fadd_exact:
  assumes "is_integer a" and "list_all is_integer xs"
    and "\<bar>a\<bar> + (\<Sum>x\<leftarrow>xs. \<bar>x\<bar>) \<le> max_safe_integer"
  shows "foldl (\<lambda>acc x. fadd acc (Num x)) (Num a) xs = Num (a + sum_list xs)"
  using assms
proof (induction xs arbitrary: a)
  case Nil
  show ?case by simp
next
  case (Cons x xs)
  have int: "is_integer (a + x)"
    using Cons.prems(1,2) by (simp add: is_integer_add)
  have "\<bar>a + x\<bar> \<le> \<bar>a\<bar> + \<bar>x\<bar>"
    by (rule abs_triangle_ineq)
  moreover have "0 \<le> (\<Sum>x\<leftarrow>xs. \<bar>x\<bar>)"
    by (rule sum_list_nonneg) auto
  ultimately have bound: "\<bar>a + x\<bar> + (\<Sum>x\<leftarrow>xs. \<bar>x\<bar>) \<le> max_safe_integer"
    and small: "\<bar>a + x\<bar> \<le> max_safe_integer"
    using Cons.prems(3) by simp_all
  have "fadd (Num a) (Num x) = Num (a + x)"
    using int small by (simp add: round64_safe_integer)
  moreover have "foldl (\<lambda>acc x. fadd acc (Num x)) (Num (a + x)) xs = Num (a + x + sum_list xs)"
    using int Cons.prems(2) bound by (intro Cons.IH) simp_all
  ultimately show ?case
    by (simp add: add.assoc)
qed

lemma add_pnl_eq: "add_pnl = (\<lambda>acc t. fadd acc (Num (pnl t)))"
  by (simp add: fun_eq_iff add_pnl_def)

lemma foldl_add_pnl_map:
  "foldl add_pnl a ts = foldl (\<lambda>acc x. fadd acc (Num x)) a (map pnl ts)"
  by (simp add: foldl_map add_pnl_eq)

lemma safe_amounts_exact:
  assumes "safe_amounts ts"
  shows "foldl add_pnl (Num 0) ts = Num (sum_list (map pnl ts))"
proof -
  have "list_all is_integer (map pnl ts)"
    using assms by (simp add: safe_amounts_def list_all_iff)
  moreover have "\<bar>0::real\<bar> + (\<Sum>x\<leftarrow>map pnl ts. \<bar>x\<bar>) \<le> max_safe_integer"
    using assms by (simp add: safe_amounts_def comp_def)
  moreover have "is_integer 0"
    by (simp add: is_integer_def)
  ultimately show ?thesis
    using foldl_fadd_exact [of 0 "map pnl ts"] by (simp add: foldl_add_pnl_map)
qed

lemma sum_list_mset_cong:
  "mset xs = mset ys \<Longrightarrow> sum_list (map f xs) = sum_list (map f ys)"
  for f :: "'a \<Rightarrow> real"
  by (metis mset_map sum_mset_sum_list)

lemma safe_amounts_mset:
  assumes "mset ts' = mset ts" and "safe_amounts ts"
  shows "safe_amounts ts'"
proof -
  have "set ts' = set ts"
    using assms(1) by (rule mset_eq_setD)
  moreover have "(\<Sum>t\<leftarrow>ts'. \<bar>pnl t\<bar>) = (\<Sum>t\<leftarrow>ts. \<bar>pnl t\<bar>)"
    using assms(1) by (rule sum_list_mset_cong)
  ultimately show ?thesis
    using assms(2) by (simp add: safe_amounts_def list_all_iff)
qed

lemma net_stats: "net (stats ts) = foldl add_pnl (Num 0) ts"
  by (simp add: stats_def Let_def)

text \<open>
  Claim C8. The net of \<open>stats\<close> is the sum of the pnl of the trades taken from left to
  right in double precision. When the pnl are integers whose absolute values add up to
  at most \<^verbatim>\<open>Number.MAX_SAFE_INTEGER\<close>, the net is the arithmetic sum of the pnl, and every
  list with the same trades in another order has the same net.
\<close>

theorem net_is_sum_any_order:
  "net (stats trades) = foldl (\<lambda>acc t. fadd acc (Num (pnl t))) (Num 0) trades
   \<and> (safe_amounts trades \<longrightarrow>
        net (stats trades) = Num (sum_list (map pnl trades))
        \<and> (\<forall>trades'. mset trades' = mset trades \<longrightarrow> net (stats trades') = net (stats trades)))"
proof -
  have "net (stats trades') = net (stats trades)"
    if "safe_amounts trades" and "mset trades' = mset trades" for trades'
  proof -
    have "safe_amounts trades'"
      using that(2,1) by (rule safe_amounts_mset)
    then have "net (stats trades') = Num (sum_list (map pnl trades'))"
      by (simp add: net_stats safe_amounts_exact)
    also have "sum_list (map pnl trades') = sum_list (map pnl trades)"
      using that(2) by (rule sum_list_mset_cong)
    finally show ?thesis
      using that(1) by (simp add: net_stats safe_amounts_exact)
  qed
  moreover have "net (stats trades) = foldl (\<lambda>acc t. fadd acc (Num (pnl t))) (Num 0) trades"
    by (simp add: net_stats add_pnl_eq)
  moreover have "net (stats trades) = Num (sum_list (map pnl trades))" if "safe_amounts trades"
    using that by (simp add: net_stats safe_amounts_exact)
  ultimately show ?thesis
    by blast
qed

text \<open>
  With the amounts \<^verbatim>\<open>0.3\<close>, \<^verbatim>\<open>0.2\<close>, \<^verbatim>\<open>0.1\<close> the net is \<^verbatim>\<open>0.6\<close>, and with the same
  trades in the opposite order it is \<^verbatim>\<open>0.6000000000000001\<close>.
\<close>

lemma net_newest_first: "net (stats newest_first) = Num (5404319552844595 / 9007199254740992)"
  unfolding net_stats newest_first_def
  by (simp add: add_pnl_def amount_trade_def fadd_zero_three_tenths fadd_three_tenths_fifth
      fadd_half_tenth del: fadd.simps)

lemma net_oldest_first:
  "net (stats (rev newest_first)) = Num (1351079888211149 / 2251799813685248)"
  unfolding net_stats newest_first_def
  by (simp add: add_pnl_def amount_trade_def fadd_zero_tenth fadd_tenth_fifth
      fadd_sum_three_tenths del: fadd.simps)

theorem net_order_counterexample:
  "mset (rev newest_first) = mset newest_first
   \<and> net (stats newest_first) = Num (5404319552844595 / 9007199254740992)
   \<and> net (stats (rev newest_first)) = Num (1351079888211149 / 2251799813685248)
   \<and> net (stats (rev newest_first)) \<noteq> net (stats newest_first)"
  unfolding net_newest_first net_oldest_first by simp

lemma safe_seed: "safe_amounts seed_trades"
  by (simp add: safe_amounts_def seed_trades_def seed_trade_def max_safe_integer_def)

theorem net_is_sum_any_order_witness:
  "safe_amounts seed_trades
   \<and> net (stats seed_trades) = Num 1010 \<and> net (stats (rev seed_trades)) = Num 1010"
proof -
  have total: "sum_list (map pnl seed_trades) = 1010"
    by (simp add: seed_trades_def seed_trade_def)
  have perm: "mset (rev seed_trades) = mset seed_trades"
    by simp
  have "net (stats seed_trades) = Num (sum_list (map pnl seed_trades))"
    and "net (stats (rev seed_trades)) = net (stats seed_trades)"
    using net_is_sum_any_order [of seed_trades] safe_seed perm by blast+
  then show ?thesis
    unfolding total using safe_seed by simp
qed

section \<open>Sorting and the equity curve\<close>



















section \<open>The daily P&L\<close>






lemma sum_list_filter_le:
  fixes f :: "'a \<Rightarrow> real"
  assumes "\<And>x. 0 \<le> f x"
  shows "sum_list (map f (filter P xs)) \<le> sum_list (map f xs)"
proof (induction xs)
  case Nil
  show ?case by simp
next
  case (Cons x xs)
  then show ?case
    using assms [of x] by simp
qed

lemma safe_amounts_filter:
  assumes "safe_amounts ts"
  shows "safe_amounts (filter P ts)"
proof -
  have "(\<Sum>t\<leftarrow>filter P ts. \<bar>pnl t\<bar>) \<le> (\<Sum>t\<leftarrow>ts. \<bar>pnl t\<bar>)"
    by (rule sum_list_filter_le) simp
  then show ?thesis
    using assms by (auto simp: safe_amounts_def list_all_iff)
qed



lemma dailyPnL_values:
  "map day_pnl (dailyPnL D ts)
     = map snd (array_sort (\<lambda>a b. time_difference D (fst a) (fst b)) (daily_forEach ts []))"
  by (simp add: dailyPnL_def case_prod_beta comp_def)






section \<open>The filter\<close>

lemma filtered_eq_filter:
  "filtered D trades activeMonth exitsOnly =
     filter (\<lambda>t. monthFromDate D (date t) = activeMonth
                  \<and> (exitsOnly \<longrightarrow> (\<exists>x. exit t = Some x \<and> x \<noteq> 0) \<or> isExitRecord t = Some True))
       trades"
proof -
  have exit_test: "Boolean_number v \<longleftrightarrow> (\<exists>x. v = Some x \<and> x \<noteq> 0)" for v
    by (cases v) (simp_all add: Boolean_number_def)
  have flag_test: "truthy_flag b \<longleftrightarrow> b = Some True" for b
    by (cases b) (simp_all add: truthy_flag_def)
  show ?thesis
    unfolding filtered_def filter_filter
    by (rule filter_cong) (auto simp: exit_test flag_test)
qed

text \<open>
  Claim C2. The filter keeps the trades of the chosen month in their order, and with
  \<^verbatim>\<open>exitsOnly\<close> those among them whose exit is a number other than 0 or whose
  \<^verbatim>\<open>isExitRecord\<close> is true (\<open>filtered_eq_filter\<close>). A trade whose exit is present and
  equal to 0, as the form stores it when 0 is typed and as the tables display it through
  \<^verbatim>\<open>t.exit ?? "-"\<close>, is dropped by \<^verbatim>\<open>Boolean(t.exit)\<close> although its exit is present: on the
  December trade \<open>zero_exit_trade\<close> the filter with \<^verbatim>\<open>exitsOnly\<close> returns the empty list.
\<close>

theorem filtered_drops_exit_at_zero:
  "exit zero_exit_trade = Some 0
   \<and> monthFromDate utc_platform (date zero_exit_trade) = ''Dec25''
   \<and> filtered utc_platform [zero_exit_trade] ''Dec25'' False = [zero_exit_trade]
   \<and> filtered utc_platform [zero_exit_trade] ''Dec25'' True = []"
  by code_simp

section \<open>Statistics\<close>

text \<open>
  Claim C4. On the empty list every member of \<open>stats\<close> is 0. Nothing can throw: each
  \<^verbatim>\<open>reduce\<close> is given the initial value 0 and each division is guarded by a length test.
\<close>

theorem stats_empty:
  "stats [] = \<lparr> net = Num 0, winRate = Num 0, avgWin = Num 0, avgLoss = Num 0, totalTrades = 0,
                drawdown = Num 0 \<rparr>"
  by (simp add: stats_def computeDrawdown_def)

section \<open>Report metrics\<close>

lemma nonnegative_fadd:
  assumes "nonnegative a" and "0 \<le> x"
  shows "nonnegative (fadd a (Num x))"
proof (cases a)
  case (Num v)
  with assms have "0 \<le> v + x"
    by (simp add: nonnegative_def)
  then have "0 \<le> nearest (v + x)"
    by (rule nearest_nonneg)
  then show ?thesis
    using overflow_threshold_pos by (simp add: Num nonnegative_def round64_def Let_def)
qed (use assms in \<open>simp_all add: nonnegative_def\<close>)

lemma nonnegative_foldl:
  assumes "nonnegative a" and "\<forall>x\<in>set xs. 0 \<le> x"
  shows "nonnegative (foldl (\<lambda>acc x. fadd acc (Num x)) a xs)"
  using assms by (induction xs arbitrary: a) (simp_all add: nonnegative_fadd)

lemma wins_fold:
  "foldl (\<lambda>a b. fadd a (Num (pnl b))) (Num 0) ts
     = foldl (\<lambda>acc x. fadd acc (Num x)) (Num 0) (map pnl ts)"
  by (simp add: foldl_map)

lemma losses_fold:
  "foldl (\<lambda>a b. fadd a (Num \<bar>pnl b\<bar>)) (Num 0) ts
     = foldl (\<lambda>acc x. fadd acc (Num x)) (Num 0) (map (\<lambda>t. \<bar>pnl t\<bar>) ts)"
  by (simp add: foldl_map)

lemma losses_not_NaN:
  "foldl (\<lambda>a b. fadd a (Num \<bar>pnl b\<bar>)) (Num 0) ts \<noteq> NaN"
proof -
  have "nonnegative (foldl (\<lambda>acc x. fadd acc (Num x)) (Num 0) (map (\<lambda>t. \<bar>pnl t\<bar>) ts))"
    by (rule nonnegative_foldl) (simp_all add: nonnegative_def)
  then show ?thesis
    unfolding losses_fold by (auto simp: nonnegative_def)
qed

lemma safe_wins:
  assumes "safe_amounts trades"
  shows "foldl (\<lambda>a b. fadd a (Num (pnl b))) (Num 0) (filter (\<lambda>t. pnl t > 0) trades)
         = Num (gross_wins trades)"
  using safe_amounts_exact [OF safe_amounts_filter [OF assms], of "\<lambda>t. pnl t > 0"]
  by (simp add: gross_wins_def add_pnl_eq)

lemma safe_losses:
  assumes "safe_amounts trades"
  shows "foldl (\<lambda>a b. fadd a (Num \<bar>pnl b\<bar>)) (Num 0) (filter (\<lambda>t. pnl t < 0) trades)
         = Num (gross_losses trades)"
proof -
  let ?ls = "filter (\<lambda>t. pnl t < 0) trades"
  have safe: "safe_amounts ?ls"
    using assms by (rule safe_amounts_filter)
  then have "list_all is_integer (map (\<lambda>t. \<bar>pnl t\<bar>) ?ls)"
    by (auto simp: safe_amounts_def list_all_iff is_integer_minus)
  moreover have "\<bar>0::real\<bar> + (\<Sum>x\<leftarrow>map (\<lambda>t. \<bar>pnl t\<bar>) ?ls. \<bar>x\<bar>) \<le> max_safe_integer"
    using safe by (simp add: safe_amounts_def comp_def)
  ultimately have "foldl (\<lambda>acc x. fadd acc (Num x)) (Num 0) (map (\<lambda>t. \<bar>pnl t\<bar>) ?ls)
                   = Num (0 + sum_list (map (\<lambda>t. \<bar>pnl t\<bar>) ?ls))"
    by (intro foldl_fadd_exact) (simp_all add: is_integer_def)
  then show ?thesis
    by (simp add: losses_fold gross_losses_def)
qed

text \<open>
  Claim C5. The profit factor is the sum of the positive pnl divided by the sum of the
  absolute values of the negative pnl, sums and quotient in double precision, and the
  sum of the positive pnl itself when that divisor is 0, in particular when no trade
  loses. When the pnl are integers whose absolute values add up to at most
  \<^verbatim>\<open>Number.MAX_SAFE_INTEGER\<close>, both sums are the arithmetic ones and the profit factor is
  finite: the sum of the positive pnl when the divisor is 0, the double nearest to the
  quotient otherwise.
\<close>

theorem profitFactor_ratio_or_wins:
  "profitFactor trades =
     (let wins = foldl (\<lambda>a b. fadd a (Num (pnl b))) (Num 0) (filter (\<lambda>t. pnl t > 0) trades);
          losses = foldl (\<lambda>a b. fadd a (Num \<bar>pnl b\<bar>)) (Num 0) (filter (\<lambda>t. pnl t < 0) trades)
      in if losses = Num 0 then wins else fdiv wins losses)
   \<and> ((\<forall>t\<in>set trades. \<not> pnl t < 0) \<longrightarrow>
        profitFactor trades
          = foldl (\<lambda>a b. fadd a (Num (pnl b))) (Num 0) (filter (\<lambda>t. pnl t > 0) trades))
   \<and> (safe_amounts trades \<longrightarrow>
        profitFactor trades
          = (if gross_losses trades = 0 then Num (gross_wins trades)
             else Num (nearest (gross_wins trades / gross_losses trades))))"
proof -
  have one: "profitFactor trades =
     (let wins = foldl (\<lambda>a b. fadd a (Num (pnl b))) (Num 0) (filter (\<lambda>t. pnl t > 0) trades);
          losses = foldl (\<lambda>a b. fadd a (Num \<bar>pnl b\<bar>)) (Num 0) (filter (\<lambda>t. pnl t < 0) trades)
      in if losses = Num 0 then wins else fdiv wins losses)"
    using losses_not_NaN [of "filter (\<lambda>t. pnl t < 0) trades"]
    by (simp add: profitFactor_def Let_def truthy_number_def)
  have two: "profitFactor trades
          = foldl (\<lambda>a b. fadd a (Num (pnl b))) (Num 0) (filter (\<lambda>t. pnl t > 0) trades)"
    if "\<forall>t\<in>set trades. \<not> pnl t < 0"
  proof -
    have "filter (\<lambda>t. pnl t < 0) trades = []"
      using that by (simp add: filter_empty_conv)
    then show ?thesis
      unfolding one by (simp add: Let_def)
  qed
  have three: "profitFactor trades
          = (if gross_losses trades = 0 then Num (gross_wins trades)
             else Num (nearest (gross_wins trades / gross_losses trades)))"
    if safe: "safe_amounts trades"
  proof (cases "gross_losses trades = 0")
    case True
    then show ?thesis
      unfolding one by (simp add: Let_def safe_wins [OF safe] safe_losses [OF safe])
  next
    case False
    let ?w = "gross_wins trades" and ?l = "gross_losses trades"
    have l_nonneg: "0 \<le> ?l"
      unfolding gross_losses_def by (rule sum_list_nonneg) auto
    have "is_integer ?l"
    proof -
      have "list_all is_integer (map (\<lambda>t. \<bar>pnl t\<bar>) (filter (\<lambda>t. pnl t < 0) trades))"
        using safe by (auto simp: safe_amounts_def list_all_iff is_integer_minus)
      then show ?thesis
        unfolding gross_losses_def by (rule is_integer_sum_list)
    qed
    then have l: "1 \<le> ?l"
      using l_nonneg False by (intro is_integer_pos_ge_one) simp_all
    have w_nonneg: "0 \<le> ?w"
      unfolding gross_wins_def by (rule sum_list_nonneg) auto
    have "?w \<le> (\<Sum>t\<leftarrow>filter (\<lambda>t. pnl t > 0) trades. \<bar>pnl t\<bar>)"
      unfolding gross_wins_def by (rule sum_list_mono) simp
    also have "\<dots> \<le> (\<Sum>t\<leftarrow>trades. \<bar>pnl t\<bar>)"
      by (rule sum_list_filter_le) simp
    finally have w: "?w \<le> max_safe_integer"
      using safe by (simp add: safe_amounts_def)
    have "?w / ?l \<le> ?w / 1"
      using l w_nonneg by (intro divide_left_mono) simp_all
    then have "\<bar>?w / ?l\<bar> \<le> max_safe_integer"
      using w w_nonneg l_nonneg by simp
    then have "round64 (?w / ?l) = Num (nearest (?w / ?l))"
      by (rule round64_small)
    with False show ?thesis
      unfolding one by (simp add: Let_def safe_wins [OF safe] safe_losses [OF safe])
  qed
  from one two three show ?thesis by blast
qed

text \<open>
  Two winning trades of \<open>huge\<close> each and no losing trade: the sum of the positive pnl
  overflows and the profit factor is \<^verbatim>\<open>Infinity\<close>.
\<close>

theorem profitFactor_overflow_counterexample:
  "filter (\<lambda>t. pnl t < 0) huge_wins = [] \<and> profitFactor huge_wins = PosInfinity"
  using huge_pos
  by (simp add: profitFactor_def huge_wins_def amount_trade_def Let_def truthy_number_def
      fadd_zero_huge fadd_huge_huge del: fadd.simps)

lemma nearest_seed_ratio: "nearest (145 / 44) = 7420703931462749 / 2251799813685248"
  by (subst nearest_at [where k = 1 and e = "- 51"]) (simp_all add: round64_eval)

theorem profitFactor_ratio_or_wins_witness:
  "safe_amounts seed_trades
   \<and> profitFactor seed_trades = Num (7420703931462749 / 2251799813685248)
   \<and> profitFactor (take 2 seed_trades) = Num 716"
proof -
  have w: "gross_wins seed_trades = 1450" and l: "gross_losses seed_trades = 440"
    by (simp_all add: gross_wins_def gross_losses_def seed_trades_def seed_trade_def)
  have "profitFactor seed_trades
        = (if gross_losses seed_trades = 0 then Num (gross_wins seed_trades)
           else Num (nearest (gross_wins seed_trades / gross_losses seed_trades)))"
    using profitFactor_ratio_or_wins [of seed_trades] safe_seed by blast
  then have "profitFactor seed_trades = Num (nearest (145 / 44))"
    unfolding w l by simp
  moreover have "\<forall>t\<in>set (take 2 seed_trades). \<not> pnl t < 0"
    by (simp add: seed_trades_def seed_trade_def)
  then have "profitFactor (take 2 seed_trades)
             = foldl (\<lambda>a b. fadd a (Num (pnl b))) (Num 0)
                 (filter (\<lambda>t. pnl t > 0) (take 2 seed_trades))"
    using profitFactor_ratio_or_wins [of "take 2 seed_trades"] by blast
  then have "profitFactor (take 2 seed_trades) = Num 716"
    by (simp add: seed_trades_def seed_trade_def safe_eval)
  ultimately show ?thesis
    using safe_seed by (simp add: nearest_seed_ratio)
qed

lemma foldl_max_Max: "foldl max x xs = Max (set (x # xs))"
  for x :: real
  using Max.set_eq_fold [of x xs] by (simp add: foldl_conv_fold max.commute)

lemma foldl_min_Min: "foldl min x xs = Min (set (x # xs))"
  for x :: real
  using Min.set_eq_fold [of x xs] by (simp add: foldl_conv_fold min.commute)

text \<open>
  Claim C7. For a non-empty list of trades, \<open>best\<close> is the greatest pnl and \<open>worst\<close> the
  least pnl of the trades, both finite numbers.
\<close>

theorem best_worst_max_min:
  "trades \<noteq> [] \<Longrightarrow>
     best trades = Num (Max (pnl ` set trades)) \<and> worst trades = Num (Min (pnl ` set trades))"
proof -
  assume "trades \<noteq> []"
  then obtain t ts where "trades = t # ts"
    by (cases trades) simp_all
  then show ?thesis
    using foldl_max_Max [of "pnl t" "map pnl ts"] foldl_min_Min [of "pnl t" "map pnl ts"]
    by (simp add: best_def worst_def Math_max_def Math_min_def)
qed

theorem best_worst_max_min_witness:
  "seed_trades \<noteq> [] \<and> best seed_trades = Num 420 \<and> worst seed_trades = Num (- 280)
   \<and> Max (pnl ` set seed_trades) = 420 \<and> Min (pnl ` set seed_trades) = - 280"
proof -
  have ne: "seed_trades \<noteq> []"
    by code_simp
  have b: "best seed_trades = Num 420" and w: "worst seed_trades = Num (- 280)"
    by code_simp+
  from best_worst_max_min [OF ne] show ?thesis
    unfolding b w using ne by simp
qed

section \<open>The health probe\<close>

lemma tryApi_resolves:
  "tryApi r = Inr (case backend_body r of None \<Rightarrow> JNull | Some v \<Rightarrow> v)"
  by (cases r) (simp_all add: tryApi_def tryApi_try_def backend_body_def split: option.splits)

lemma truthy_boolean:
  "ok_is_boolean v \<Longrightarrow>
     truthy (get_member v ''ok'') \<longleftrightarrow> get_member v ''ok'' = Some (JBool True)"
  by (auto simp: ok_is_boolean_def split: option.splits json.splits)

lemma health_cases:
  "health r =
     Inr \<lparr> ok = True,
           source = (if \<exists>v. backend_body r = Some v \<and> truthy (get_member v ''ok'')
                     then Api else Local) \<rparr>"
  by (cases "backend_body r") (simp_all add: health_def tryApi_resolves)

text \<open>
  Claim C9. \<^verbatim>\<open>health\<close> always resolves, with \<^verbatim>\<open>ok\<close> true. Its source is \<^verbatim>\<open>"api"\<close> exactly
  when the fetch is fulfilled with a success status and a body that parses and whose
  member \<^verbatim>\<open>ok\<close> passes the test of the \<^verbatim>\<open>if\<close>, and \<^verbatim>\<open>"local"\<close> otherwise. For a body of
  the declared type \<^verbatim>\<open>{ ok: boolean }\<close> the test is passed exactly by \<^verbatim>\<open>ok\<close> being true.
\<close>

theorem health_always_ok_source_api_iff:
  "(\<exists>res. health r = Inr res \<and> ok res)
   \<and> (health r = Inr \<lparr> ok = True, source = Api \<rparr>
        \<longleftrightarrow> (\<exists>v. backend_body r = Some v \<and> truthy (get_member v ''ok'')))
   \<and> (health r = Inr \<lparr> ok = True, source = Local \<rparr>
        \<longleftrightarrow> \<not> (\<exists>v. backend_body r = Some v \<and> truthy (get_member v ''ok'')))
   \<and> ((\<forall>v. backend_body r = Some v \<longrightarrow> ok_is_boolean v) \<longrightarrow>
        (health r = Inr \<lparr> ok = True, source = Api \<rparr>
           \<longleftrightarrow> (\<exists>v. backend_body r = Some v \<and> get_member v ''ok'' = Some (JBool True))))"
proof -
  have typed: "(\<exists>v. backend_body r = Some v \<and> truthy (get_member v ''ok''))
               \<longleftrightarrow> (\<exists>v. backend_body r = Some v \<and> get_member v ''ok'' = Some (JBool True))"
    if "\<forall>v. backend_body r = Some v \<longrightarrow> ok_is_boolean v"
    using that truthy_boolean by blast
  show ?thesis
    using typed by (simp add: health_cases)
qed

theorem health_always_ok_source_api_iff_witness:
  "health backend_reply = Inr \<lparr> ok = True, source = Api \<rparr>
   \<and> health Rejected = Inr \<lparr> ok = True, source = Local \<rparr>
   \<and> health (Fulfilled \<lparr> res_ok = False, res_json = Some (JObject [(''ok'', JBool True)]) \<rparr>)
       = Inr \<lparr> ok = True, source = Local \<rparr>
   \<and> health (Fulfilled \<lparr> res_ok = True, res_json = None \<rparr>) = Inr \<lparr> ok = True, source = Local \<rparr>
   \<and> health (Fulfilled \<lparr> res_ok = True, res_json = Some (JObject [(''ok'', JBool False)]) \<rparr>)
       = Inr \<lparr> ok = True, source = Local \<rparr>"
proof -
  have body: "backend_body backend_reply
      = Some (JObject [(''ok'', JBool True),
                   (''data'', JObject [(''status'', JString ''ok''),
                                       (''time'', JString ''2025-12-01T00:00:00.000Z'')])])"
    by (simp add: backend_body_def backend_reply_def)
  have "\<forall>v. backend_body backend_reply = Some v \<longrightarrow> ok_is_boolean v"
    unfolding body by (simp add: ok_is_boolean_def)
  moreover have "\<exists>v. backend_body backend_reply = Some v \<and> get_member v ''ok'' = Some (JBool True)"
    unfolding body by simp
  ultimately have "health backend_reply = Inr \<lparr> ok = True, source = Api \<rparr>"
    using health_always_ok_source_api_iff [of backend_reply] by blast
  moreover have "health Rejected = Inr \<lparr> ok = True, source = Local \<rparr>"
    using health_always_ok_source_api_iff [of Rejected] by (simp add: backend_body_def)
  moreover have "health (Fulfilled \<lparr> res_ok = False, res_json = Some (JObject [(''ok'', JBool True)]) \<rparr>)
       = Inr \<lparr> ok = True, source = Local \<rparr>"
    by (simp add: health_def tryApi_def tryApi_try_def)
  moreover have "health (Fulfilled \<lparr> res_ok = True, res_json = None \<rparr>) = Inr \<lparr> ok = True, source = Local \<rparr>"
    by (simp add: health_def tryApi_def tryApi_try_def)
  moreover have "health (Fulfilled \<lparr> res_ok = True, res_json = Some (JObject [(''ok'', JBool False)]) \<rparr>)
       = Inr \<lparr> ok = True, source = Local \<rparr>"
    by (simp add: health_def tryApi_def tryApi_try_def)
  ultimately show ?thesis by blast
qed

section \<open>Session assignment\<close>

text \<open>
  Claim C10. \<^verbatim>\<open>assignSession\<close> keeps the length and the order of the list; the trade at
  each position keeps every member but \<^verbatim>\<open>session\<close>, which becomes the given session when
  the trade's id is the given id and is kept otherwise; a list without that id is
  returned unchanged.
\<close>

theorem assignSession_frame:
  "length (assignSession tradeId s prev) = length prev
   \<and> (\<forall>i<length prev.
        assignSession tradeId s prev ! i
          = (if trade_id (prev ! i) = tradeId then (prev ! i)\<lparr>session := Some s\<rparr> else prev ! i)
        \<and> trade_id (assignSession tradeId s prev ! i) = trade_id (prev ! i)
        \<and> date (assignSession tradeId s prev ! i) = date (prev ! i)
        \<and> symbol (assignSession tradeId s prev ! i) = symbol (prev ! i)
        \<and> direction (assignSession tradeId s prev ! i) = direction (prev ! i)
        \<and> entry (assignSession tradeId s prev ! i) = entry (prev ! i)
        \<and> exit (assignSession tradeId s prev ! i) = exit (prev ! i)
        \<and> trade_size (assignSession tradeId s prev ! i) = trade_size (prev ! i)
        \<and> pnl (assignSession tradeId s prev ! i) = pnl (prev ! i)
        \<and> trade_notes (assignSession tradeId s prev ! i) = trade_notes (prev ! i)
        \<and> isExitRecord (assignSession tradeId s prev ! i) = isExitRecord (prev ! i)
        \<and> session (assignSession tradeId s prev ! i)
            = (if trade_id (prev ! i) = tradeId then Some s else session (prev ! i)))
   \<and> ((\<forall>t\<in>set prev. trade_id t \<noteq> tradeId) \<longrightarrow> assignSession tradeId s prev = prev)"
proof -
  have "assignSession tradeId s prev = prev" if "\<forall>t\<in>set prev. trade_id t \<noteq> tradeId"
    using that by (simp add: assignSession_def map_idI)
  then show ?thesis
    by (simp add: assignSession_def)
qed

theorem assignSession_frame_witness:
  "assignSession ''T-1005'' ''London'' seed_trades
     = take 4 seed_trades @ [(seed_trades ! 4)\<lparr>session := Some ''London''\<rparr>] @ drop 5 seed_trades
   \<and> assignSession ''T-1005'' ''London'' seed_trades ! 4
       = (seed_trades ! 4)\<lparr>session := Some ''London''\<rparr>
   \<and> assignSession ''T-1005'' ''London'' seed_trades ! 3 = seed_trades ! 3
   \<and> assignSession ''T-9999'' ''London'' seed_trades = seed_trades"
proof -
  have len: "(4::nat) < length seed_trades" "(3::nat) < length seed_trades"
    by code_simp+
  have hit: "trade_id (seed_trades ! 4) = ''T-1005''"
    and miss: "trade_id (seed_trades ! 3) \<noteq> ''T-1005''"
    and absent: "\<forall>t\<in>set seed_trades. trade_id t \<noteq> ''T-9999''"
    by code_simp+
  have whole: "assignSession ''T-1005'' ''London'' seed_trades
     = take 4 seed_trades @ [(seed_trades ! 4)\<lparr>session := Some ''London''\<rparr>] @ drop 5 seed_trades"
    by code_simp
  show ?thesis
    using assignSession_frame [of "''T-1005''" "''London''" seed_trades]
      assignSession_frame [of "''T-9999''" "''London''" seed_trades]
      len hit miss absent whole
    by simp
qed

end
